theory Spec2Isabelle
  imports Main "HOL-Library.Word" "HOL-Library.Signed_Division"
begin

section \<open>Machine integers of the Go source\<close>

type_synonym u8 = "8 word"
type_synonym u16 = "16 word"
type_synonym u32 = "32 word"
type_synonym i64 = "64 word"

text \<open>
  Go's \<open>/\<close> on \<open>int64\<close> truncates towards zero; the quotient is taken on the
  two's-complement readings and stored back in 64 bits.
\<close>

definition i64_quo :: "i64 \<Rightarrow> i64 \<Rightarrow> i64" where
  "i64_quo a b = word_of_int (sint a sdiv sint b)"

section \<open>Constants (common definitions file)\<close>

definition STATE_OPEN :: u8 where "STATE_OPEN = 0"
definition STATE_HALF_CLOSED_HERE :: u8 where "STATE_HALF_CLOSED_HERE = 1"
definition STATE_HALF_CLOSED_THERE :: u8 where "STATE_HALF_CLOSED_THERE = 2"
definition STATE_CLOSED :: u8 where "STATE_CLOSED = 3"

definition RST_STREAM_FLOW_CONTROL_ERROR :: u32 where
  "RST_STREAM_FLOW_CONTROL_ERROR = 7"

definition MAX_TRANSFER_WINDOW_SIZE :: i64 where
  "MAX_TRANSFER_WINDOW_SIZE = 0x80000000"

definition NO_STREAM_LIMIT :: u32 where
  "NO_STREAM_LIMIT = 0x80000000"

section \<open>streamLimit\<close>

text \<open>
  The struct \<open>streamLimit\<close> with its two \<open>uint32\<close> fields. The embedded mutex
  only serialises the methods and carries no data; each method is one atomic step.
\<close>

record streamLimit =
  limit :: u32
  current :: u32

text \<open>\<open>Add\<close> returns the updated struct together with the boolean result.\<close>

definition Add :: "streamLimit \<Rightarrow> streamLimit \<times> bool" where
  "Add s = (if current s \<ge> limit s then (s, False)
            else (s\<lparr>current := current s + 1\<rparr>, True))"

text \<open>\<open>Close\<close> of \<open>streamLimit\<close>: \<open>s.current--\<close> on a \<open>uint32\<close>.\<close>

definition Close_limit :: "streamLimit \<Rightarrow> streamLimit" where
  "Close_limit s = s\<lparr>current := current s - 1\<rparr>"

section \<open>StreamState\<close>

text \<open>
  \<open>StreamState\<close> holds one \<open>uint8\<close> behind a read-write lock; the state is the
  value of that field.
\<close>

type_synonym StreamState = u8

definition Close_state :: "StreamState \<Rightarrow> StreamState" where
  "Close_state s = STATE_CLOSED"

definition CloseHere :: "StreamState \<Rightarrow> StreamState" where
  "CloseHere s = (if s = STATE_OPEN then STATE_HALF_CLOSED_HERE
                  else if s = STATE_HALF_CLOSED_THERE then STATE_CLOSED
                  else s)"

definition CloseThere :: "StreamState \<Rightarrow> StreamState" where
  "CloseThere s = (if s = STATE_OPEN then STATE_HALF_CLOSED_THERE
                   else if s = STATE_HALF_CLOSED_HERE then STATE_CLOSED
                   else s)"

definition Closed :: "StreamState \<Rightarrow> bool" where
  "Closed s = (s = STATE_CLOSED)"

text \<open>A sequence of calls of the three mutating methods on one \<open>StreamState\<close>.\<close>

datatype state_call = CallCloseHere | CallCloseThere | CallClose

fun run_call :: "StreamState \<Rightarrow> state_call \<Rightarrow> StreamState" where
  "run_call s CallCloseHere = CloseHere s"
| "run_call s CallCloseThere = CloseThere s"
| "run_call s CallClose = Close_state s"

definition run_calls :: "StreamState \<Rightarrow> state_call list \<Rightarrow> StreamState" where
  "run_calls s cs = foldl run_call s cs"

section \<open>DefaultFlowControl\<close>

text \<open>
  \<open>DefaultFlowControl.ReceiveData\<close>. The receiver \<open>f\<close> and the stream id are not
  used by the body. The result is converted to \<open>uint32\<close>, which keeps the low 32 bits.
\<close>

definition DefaultFlowControl_InitialWindowSize :: "u32 \<Rightarrow> u32" where
  "DefaultFlowControl_InitialWindowSize f = f"

definition DefaultFlowControl_ReceiveData :: "u32 \<Rightarrow> u32 \<Rightarrow> u32 \<Rightarrow> i64 \<Rightarrow> u32" where
  "DefaultFlowControl_ReceiveData f streamID initialWindowSize newWindowSize =
     (if newWindowSize <s i64_quo (ucast initialWindowSize) 2
      then ucast ((ucast initialWindowSize :: i64) - newWindowSize)
      else 0)"

section \<open>Supported versions and NPN strings\<close>

text \<open>\<open>fmt.Sprintf("%d", n)\<close>: decimal digits, with a minus sign below zero.\<close>

definition digit_char :: "nat \<Rightarrow> char" where
  "digit_char d = ''0123456789'' ! d"

fun decimal_nat :: "nat \<Rightarrow> string" where
  "decimal_nat n = (if n < 10 then [digit_char n]
                    else decimal_nat (n div 10) @ [digit_char (n mod 10)])"

declare decimal_nat.simps [simp del]

definition Sprintf_d :: "int \<Rightarrow> string" where
  "Sprintf_d n = (if n < 0 then CHR ''-'' # decimal_nat (nat (- n)) else decimal_nat (nat n))"

text \<open>
  The package variable \<open>supportedVersions\<close> is a map used as a set of \<open>uint16\<close> keys.
  Go iterates a map in no fixed order, so \<open>SupportedVersions\<close> takes the keys in the
  order the iteration happens to deliver them and sorts them in descending order.
\<close>

definition supportedVersions :: "u16 set" where
  "supportedVersions = {2, 3}"

definition SupportedVersions :: "u16 list \<Rightarrow> int list" where
  "SupportedVersions keys = rev (sort (map uint keys))"

definition NpnStrings :: "u16 list \<Rightarrow> string list" where
  "NpnStrings keys = map (\<lambda>v. ''spdy/'' @ Sprintf_d v) (SupportedVersions keys) @ [''http/1.1'']"

section \<open>Flow control: data\<close>

text \<open>
  \<open>errors.New(msg)\<close> is an error value carrying its message. A run-time panic of the Go
  program (a negative capacity given to \<open>make\<close>, a method call on a nil interface) is a
  separate outcome: it ends the call without a result.
\<close>

datatype error = Error string

datatype panic = Panic string

text \<open>
  The connection as the flow control sees it: the result of its \<open>InitialWindowSize()\<close>,
  a window size or an error. A \<open>Stream\<close> reference gives access to its connection through
  \<open>Conn()\<close>, which may be nil.
\<close>

datatype Conn = Conn (Conn_InitialWindowSize: "error + u32")

datatype Stream = Stream (Stream_Conn: "Conn option")

text \<open>
  The interface \<open>FlowControl\<close>: a value with the two methods. \<open>DefaultFlowControl\<close> is
  the implementation of the package.
\<close>

record FlowControl =
  InitialWindowSize :: u32
  ReceiveData :: "u32 \<Rightarrow> u32 \<Rightarrow> i64 \<Rightarrow> u32"

definition DefaultFlowControl :: "u32 \<Rightarrow> FlowControl" where
  "DefaultFlowControl f =
     \<lparr>InitialWindowSize = DefaultFlowControl_InitialWindowSize f,
      ReceiveData = DefaultFlowControl_ReceiveData f\<rparr>"

text \<open>The frames the flow control puts on its output channel.\<close>

datatype Frame =
    dataFrameV3 u32 "u8 list"
  | rstStreamFrameV3 u32 u32
  | windowUpdateFrameV3 u32 u32

text \<open>
  The struct \<open>flowControl\<close>. A nil slice, a nil \<open>Stream\<close> and a nil \<open>FlowControl\<close> are
  \<open>None\<close>. The mutex carries no data. The channel \<open>output\<close> is not a field here: every
  method returns the frames it sent on it, in the order of the sends.
\<close>

record flowControl =
  stream :: "Stream option"
  streamID :: u32
  initialWindow :: u32
  transferWindow :: i64
  sent :: u32
  buffer :: "u8 list list option"
  constrained :: bool
  initialWindowThere :: u32
  transferWindowThere :: i64
  flowControl :: "FlowControl option"

text \<open>\<open>new(flowControl)\<close>: every field has its zero value.\<close>

definition new_flowControl :: flowControl where
  "new_flowControl =
     \<lparr>stream = None, streamID = 0, initialWindow = 0, transferWindow = 0, sent = 0,
      buffer = None, constrained = False, initialWindowThere = 0, transferWindowThere = 0,
      flowControl = None\<rparr>"

section \<open>Flow control: AddFlowControl\<close>

text \<open>
  The declarations of \<open>serverStreamV3\<close>, \<open>pushStreamV3\<close> and \<open>clientStreamV3\<close> are
  not among the source files at hand. The record has the fields the three
  \<open>AddFlowControl\<close> methods read and write; the \<open>Stream\<close> stored in the flow control is
  the stream itself, seen through its connection.
\<close>

record streamV3 =
  flow :: "flowControl option"
  conn :: Conn
  stream_streamID :: u32

definition AddFlowControl_serverStreamV3 :: "streamV3 \<Rightarrow> FlowControl \<Rightarrow> streamV3" where
  "AddFlowControl_serverStreamV3 s f =
     (if flow s \<noteq> None then s
      else case Conn_InitialWindowSize (conn s) of
        Inl err \<Rightarrow> s\<lparr>flow := Some new_flowControl\<rparr>
      | Inr initialWindow' \<Rightarrow>
          (let fl = new_flowControl;
               fl = fl\<lparr>streamID := stream_streamID s\<rparr>;
               fl = fl\<lparr>buffer := Some []\<rparr>;
               fl = fl\<lparr>initialWindow := initialWindow'\<rparr>;
               fl = fl\<lparr>transferWindow := ucast initialWindow'\<rparr>;
               fl = fl\<lparr>stream := Some (Stream (Some (conn s)))\<rparr>;
               fl = fl\<lparr>flowControl := Some f\<rparr>;
               fl = fl\<lparr>initialWindowThere := InitialWindowSize f\<rparr>;
               fl = fl\<lparr>transferWindowThere := ucast (initialWindowThere fl)\<rparr>
           in s\<lparr>flow := Some fl\<rparr>))"

definition AddFlowControl_pushStreamV3 :: "streamV3 \<Rightarrow> FlowControl \<Rightarrow> streamV3" where
  "AddFlowControl_pushStreamV3 p f =
     (if flow p \<noteq> None then p
      else case Conn_InitialWindowSize (conn p) of
        Inl err \<Rightarrow> p\<lparr>flow := Some new_flowControl\<rparr>
      | Inr initialWindow' \<Rightarrow>
          (let fl = new_flowControl;
               fl = fl\<lparr>streamID := stream_streamID p\<rparr>;
               fl = fl\<lparr>buffer := Some []\<rparr>;
               fl = fl\<lparr>initialWindow := initialWindow'\<rparr>;
               fl = fl\<lparr>transferWindow := ucast initialWindow'\<rparr>;
               fl = fl\<lparr>stream := Some (Stream (Some (conn p)))\<rparr>;
               fl = fl\<lparr>flowControl := Some f\<rparr>;
               fl = fl\<lparr>initialWindowThere := InitialWindowSize f\<rparr>;
               fl = fl\<lparr>transferWindowThere := transferWindowThere fl\<rparr>
           in p\<lparr>flow := Some fl\<rparr>))"

definition AddFlowControl_clientStreamV3 :: "streamV3 \<Rightarrow> FlowControl \<Rightarrow> streamV3" where
  "AddFlowControl_clientStreamV3 r f =
     (if flow r \<noteq> None then r
      else case Conn_InitialWindowSize (conn r) of
        Inl err \<Rightarrow> r\<lparr>flow := Some new_flowControl\<rparr>
      | Inr initialWindow' \<Rightarrow>
          (let fl = new_flowControl;
               fl = fl\<lparr>streamID := stream_streamID r\<rparr>;
               fl = fl\<lparr>buffer := Some []\<rparr>;
               fl = fl\<lparr>initialWindow := initialWindow'\<rparr>;
               fl = fl\<lparr>transferWindow := ucast initialWindow'\<rparr>;
               fl = fl\<lparr>stream := Some (Stream (Some (conn r)))\<rparr>;
               fl = fl\<lparr>flowControl := Some f\<rparr>;
               fl = fl\<lparr>initialWindowThere := InitialWindowSize f\<rparr>;
               fl = fl\<lparr>transferWindowThere := ucast (initialWindowThere fl)\<rparr>
           in r\<lparr>flow := Some fl\<rparr>))"

section \<open>Flow control: the send side\<close>

text \<open>
  \<open>CheckInitialWindow\<close>. The subtraction \<open>newWindow - f.sent\<close> and the difference of the
  two initial windows are \<open>uint32\<close> operations, converted to \<open>int64\<close> afterwards.
\<close>

definition CheckInitialWindow :: "flowControl \<Rightarrow> flowControl" where
  "CheckInitialWindow f =
     (case stream f of
        None \<Rightarrow> f
      | Some st \<Rightarrow>
         (case Stream_Conn st of
            None \<Rightarrow> f
          | Some c \<Rightarrow>
             (case Conn_InitialWindowSize c of
                Inl err \<Rightarrow> f
              | Inr newWindow \<Rightarrow>
                 if initialWindow f \<noteq> newWindow then
                   (let f = (if initialWindow f > newWindow
                             then f\<lparr>transferWindow := ucast (newWindow - sent f)\<rparr>
                             else if initialWindow f < newWindow
                             then f\<lparr>transferWindow :=
                                     transferWindow f + ucast (newWindow - initialWindow f)\<rparr>
                             else f);
                        f = (if transferWindow f \<le>s 0 then f\<lparr>constrained := True\<rparr> else f)
                    in f\<lparr>initialWindow := newWindow\<rparr>)
                 else f)))"

text \<open>\<open>Close\<close> of the flow control drops the buffer and the stream reference.\<close>

definition Close_flowControl :: "flowControl \<Rightarrow> flowControl" where
  "Close_flowControl f = f\<lparr>buffer := None, stream := None\<rparr>"

text \<open>
  The loop of \<open>Flush\<close>, with its variables \<open>i\<close>, \<open>f.buffer\<close>, \<open>out\<close> and \<open>left\<close>.
  One call is one test of the loop condition. In the first branch the buffer loses its
  head and \<open>i\<close> is incremented all the same; in the second branch \<open>left\<close> becomes 0 and
  the loop breaks.
\<close>

function Flush_loop ::
  "nat \<Rightarrow> u8 list list \<Rightarrow> u8 list \<Rightarrow> i64 \<Rightarrow> u8 list list \<times> u8 list \<times> i64" where
  "Flush_loop i buf out left =
     (if i < length buf then
        (let l = (word_of_nat (length (buf ! i)) :: i64) in
         if l \<le>s left then
           (let out' = out @ buf ! i;
                left' = left - l;
                buf' = drop 1 buf
            in if left' = 0 then (buf', out', left')
               else Flush_loop (i + 1) buf' out' left')
         else
           (buf[i := drop (nat (sint left)) (buf ! i)],
            out @ take (nat (sint left)) (buf ! i),
            0))
      else (buf, out, left))"
  by pat_completeness auto

termination
  by (relation "measure (\<lambda>(i, buf, out, left). length buf - i)") auto

declare Flush_loop.simps [simp del]

text \<open>
  \<open>Flush\<close>. \<open>make([]byte, 0, f.transferWindow)\<close> panics when the capacity is negative
  (the limits of the allocator on large capacities are outside the model). The loop does
  not run on a nil buffer, which stays nil.
\<close>

definition Flush :: "flowControl \<Rightarrow> panic + (flowControl \<times> Frame list)" where
  "Flush f0 =
     (let f = CheckInitialWindow f0 in
      if \<not> constrained f \<or> transferWindow f = 0 then Inr (f, [])
      else if transferWindow f <s 0 then Inl (Panic ''makeslice: cap out of range'')
      else
        (let (buf', out, left) =
               Flush_loop 0 (case buffer f of None \<Rightarrow> [] | Some b \<Rightarrow> b) [] (transferWindow f);
             f = f\<lparr>buffer := map_option (\<lambda>b. buf') (buffer f)\<rparr>;
             f = f\<lparr>transferWindow := transferWindow f - word_of_nat (length out)\<rparr>;
             f = (if 0 <s transferWindow f then f\<lparr>constrained := False\<rparr> else f)
         in Inr (f, [dataFrameV3 (streamID f) out])))"

definition Paused :: "flowControl \<Rightarrow> flowControl \<times> bool" where
  "Paused f0 = (let f = CheckInitialWindow f0 in (f, constrained f))"

text \<open>
  \<open>UpdateWindow\<close> returns the error (or nil), the flow control and the frames sent. The
  sum in the test is an \<open>int64\<close> sum. After the test the window is grown, then \<open>Flush\<close>
  runs on the grown window.
\<close>

definition UpdateWindow ::
  "flowControl \<Rightarrow> u32 \<Rightarrow> panic + (error option \<times> flowControl \<times> Frame list)" where
  "UpdateWindow f deltaWindowSize =
     (if MAX_TRANSFER_WINDOW_SIZE <s ucast deltaWindowSize + transferWindow f
      then Inr (Some (Error ''Error: WINDOW_UPDATE delta window size overflows transfer window size.''),
                f, [])
      else
        (case Flush (f\<lparr>transferWindow := transferWindow f + ucast deltaWindowSize\<rparr>) of
           Inl p \<Rightarrow> Inl p
         | Inr (f', frames) \<Rightarrow> Inr (None, f', frames)))"

text \<open>Whether a call of \<open>UpdateWindow\<close> returned a non-nil error.\<close>

fun returned_error :: "panic + (error option \<times> flowControl \<times> Frame list) \<Rightarrow> bool" where
  "returned_error (Inr (Some e, f, frames)) = True"
| "returned_error r = False"

text \<open>
  \<open>Write\<close> returns the pair \<open>(int, error)\<close>, the flow control and the frames sent.
  \<open>Write_prepare\<close> is its "transfer window processing": \<open>CheckInitialWindow\<close>, then
  \<open>Flush\<close> when the stream is constrained. \<open>Write_window\<close> is the local \<open>window\<close>: the
  transfer window cut to \<open>uint32\<close>, 0 when it is negative. The comparison with the length
  of the data is a \<open>uint32\<close> comparison.
\<close>

definition Write_prepare :: "flowControl \<Rightarrow> panic + (flowControl \<times> Frame list)" where
  "Write_prepare f0 =
     (let f = CheckInitialWindow f0 in if constrained f then Flush f else Inr (f, []))"

definition Write_window :: "flowControl \<Rightarrow> u32" where
  "Write_window f = (if transferWindow f <s 0 then 0 else ucast (transferWindow f))"

definition Write ::
  "flowControl \<Rightarrow> u8 list \<Rightarrow> panic + ((nat \<times> error option) \<times> flowControl \<times> Frame list)" where
  "Write f0 data =
     (let l = length data in
      if l = 0 then Inr ((0, None), f0, [])
      else if buffer f0 = None \<or> stream f0 = None
      then Inr ((0, Some (Error ''Error: Stream closed.'')), f0, [])
      else
        (case Write_prepare f0 of
           Inl p \<Rightarrow> Inl p
         | Inr (f, flushed) \<Rightarrow>
            (let window = Write_window f;
                 (f, data') =
                   (if (word_of_nat (length data) :: u32) > window
                    then (f\<lparr>buffer := Some ((case buffer f of None \<Rightarrow> [] | Some b \<Rightarrow> b)
                                              @ [drop (unat window) data]),
                            sent := sent f + window,
                            transferWindow := transferWindow f - ucast window,
                            constrained := True\<rparr>,
                          take (unat window) data)
                    else (f, data))
             in if length data' = 0 then Inr ((l, None), f, flushed)
                else Inr ((l, None), f, flushed @ [dataFrameV3 (streamID f) data']))))"

section \<open>Flow control: the receive side\<close>

text \<open>
  \<open>Receive\<close>. The test of a negative window sends the RST_STREAM frame and the method
  goes on with the statements after it. A nil \<open>FlowControl\<close> makes the call of
  \<open>ReceiveData\<close> panic.
\<close>

definition Receive :: "flowControl \<Rightarrow> u8 list \<Rightarrow> panic + (flowControl \<times> Frame list)" where
  "Receive f0 data =
     (let rst = (if transferWindowThere f0 <s 0
                 then [rstStreamFrameV3 (streamID f0) RST_STREAM_FLOW_CONTROL_ERROR]
                 else []);
          f = f0\<lparr>transferWindowThere := transferWindowThere f0 - word_of_nat (length data)\<rparr>
      in case flowControl f of
           None \<Rightarrow> Inl (Panic ''invalid memory address or nil pointer dereference'')
         | Some fc \<Rightarrow>
            (let delta = ReceiveData fc (streamID f) (initialWindowThere f) (transferWindowThere f)
             in if delta \<noteq> 0
                then Inr (f\<lparr>transferWindowThere := transferWindowThere f + ucast delta\<rparr>,
                          rst @ [windowUpdateFrameV3 (streamID f) delta])
                else Inr (f, rst)))"

section \<open>States used in the examples\<close>

text \<open>
  A flow control as \<open>AddFlowControl\<close> leaves it on stream 1 with initial windows 10 (send
  side) and 65535 (receive side, default policy), and the same with three chunks of one
  byte each waiting in the buffer of a constrained stream, and the same with a send window
  of 2 bytes. Then a stream without flow control yet, on a connection whose initial window
  is 65536.
\<close>

definition flow_fresh :: flowControl where
  "flow_fresh =
     \<lparr>stream = Some (Stream (Some (Conn (Inr 10)))), streamID = 1, initialWindow = 10,
      transferWindow = 10, sent = 0, buffer = Some [], constrained = False,
      initialWindowThere = 65535, transferWindowThere = 65535,
      flowControl = Some (DefaultFlowControl 65535)\<rparr>"

definition flow_pending :: flowControl where
  "flow_pending = flow_fresh\<lparr>buffer := Some [[1], [2], [3]], constrained := True\<rparr>"

definition flow_narrow :: flowControl where
  "flow_narrow = flow_fresh\<lparr>transferWindow := 2\<rparr>"

definition stream_fresh :: streamV3 where
  "stream_fresh = \<lparr>flow = None, conn = Conn (Inr 65536), stream_streamID = 2\<rparr>"

section \<open>Properties\<close>

lemmas state_defs =
  STATE_OPEN_def STATE_HALF_CLOSED_HERE_def STATE_HALF_CLOSED_THERE_def STATE_CLOSED_def


subsection \<open>Word arithmetic used below\<close>

lemma u32_max: "(0xFFFFFFFF :: u32) = - 1"
  by simp

lemma unat_u32_succ: "(x::u32) < y \<Longrightarrow> unat (x + 1) = unat x + 1"
proof -
  assume "x < y"
  then have "unat x < unat y" by (simp add: word_less_nat_alt)
  moreover have "unat y < 4294967296" using unsigned_less [of y, where 'a = nat] by simp
  ultimately have "unat x + 1 < 4294967296" by linarith
  then show ?thesis by (simp add: unat_word_ariths)
qed

lemma uint_u32_bound: "uint (W :: u32) < 4294967296"
  using uint_lt2p [of W] by simp

lemma sint_ucast_u32: "sint (ucast (W :: u32) :: i64) = uint W"
proof -
  have "uint W < 9223372036854775808" using uint_u32_bound [of W] by linarith
  moreover have "- 9223372036854775808 \<le> uint W"
    using uint_nonnegative [of W] by linarith
  ultimately have "signed_take_bit 63 (uint W) = uint W"
    by (intro signed_take_bit_int_eq_self) simp_all
  then show ?thesis by (simp add: signed_ucast_eq)
qed

lemma i64_quo_half: "sint (i64_quo (ucast (W :: u32)) 2) = uint W div 2"
proof -
  have b: "uint W < 4294967296" by (rule uint_u32_bound)
  have n: "0 \<le> uint W" by simp
  have h: "- 9223372036854775808 \<le> uint W div 2" "uint W div 2 < 9223372036854775808"
    using b n by linarith+
  have "sint (ucast W :: i64) sdiv sint (2 :: i64) = uint W div 2"
    by (simp add: sint_ucast_u32 signed_divide_int_def sgn_if)
  moreover have "signed_take_bit 63 (uint W div 2) = uint W div 2"
    using h by (intro signed_take_bit_int_eq_self) simp_all
  ultimately show ?thesis
    by (simp add: i64_quo_def signed_of_int)
qed

lemma trunc_sub:
  "uint (ucast ((ucast (W :: u32) :: i64) - c) :: u32) = (uint W - sint c) mod 2 ^ 32"
proof -
  have "uint (ucast ((ucast W :: i64) - c) :: u32) = take_bit 32 (uint ((ucast W :: i64) - c))"
    by (simp add: unsigned_ucast_eq)
  also have "\<dots> = take_bit 32 (take_bit 64 (uint (ucast W :: i64) - uint c))"
    by (simp add: uint_word_arith_bintrs)
  also have "\<dots> = take_bit 32 (uint (ucast W :: i64) - uint c)"
    by simp
  also have "uint (ucast W :: i64) = uint W"
    by (simp add: unsigned_ucast_eq take_bit_int_eq_self uint_u32_bound [THEN less_trans])
  also have "take_bit 32 (uint W - uint c) = take_bit 32 (uint W - take_bit 32 (uint c))"
    by (metis take_bit_diff take_bit_take_bit min.idem)
  also have "take_bit 32 (uint c) = take_bit 32 (sint c)"
    by (simp add: sint_uint take_bit_signed_take_bit)
  also have "take_bit 32 (uint W - take_bit 32 (sint c)) = take_bit 32 (uint W - sint c)"
    by (metis take_bit_diff take_bit_take_bit min.idem)
  finally show ?thesis by (simp add: take_bit_eq_mod)
qed

subsection \<open>The stream state machine\<close>

text \<open>
  Claim C6. \<open>CloseHere\<close> takes OPEN to HALF_CLOSED_HERE and HALF_CLOSED_THERE to CLOSED and
  leaves every other value of the state byte as it is; \<open>CloseThere\<close> takes OPEN to
  HALF_CLOSED_THERE and HALF_CLOSED_HERE to CLOSED and leaves every other value as it is;
  \<open>Close\<close> always gives CLOSED; and a state that is CLOSED is still CLOSED after any
  sequence of the three calls.
\<close>

theorem stream_state_machine:
  "CloseHere STATE_OPEN = STATE_HALF_CLOSED_HERE
   \<and> CloseHere STATE_HALF_CLOSED_THERE = STATE_CLOSED
   \<and> (s \<noteq> STATE_OPEN \<and> s \<noteq> STATE_HALF_CLOSED_THERE \<longrightarrow> CloseHere s = s)
   \<and> CloseThere STATE_OPEN = STATE_HALF_CLOSED_THERE
   \<and> CloseThere STATE_HALF_CLOSED_HERE = STATE_CLOSED
   \<and> (s \<noteq> STATE_OPEN \<and> s \<noteq> STATE_HALF_CLOSED_HERE \<longrightarrow> CloseThere s = s)
   \<and> Close_state s = STATE_CLOSED
   \<and> (Closed s \<longrightarrow> Closed (run_calls s cs))"
proof -
  have step: "run_call STATE_CLOSED c = STATE_CLOSED" for c
    by (cases c) (simp_all add: CloseHere_def CloseThere_def Close_state_def state_defs)
  have "foldl run_call STATE_CLOSED cs = STATE_CLOSED"
    by (induction cs) (simp_all add: step)
  then have "Closed s \<longrightarrow> Closed (run_calls s cs)"
    by (simp add: Closed_def run_calls_def)
  then show ?thesis
    by (simp add: CloseHere_def CloseThere_def Close_state_def state_defs)
qed

theorem stream_state_machine_witness:
  "STATE_CLOSED \<noteq> STATE_OPEN \<and> STATE_CLOSED \<noteq> STATE_HALF_CLOSED_THERE
   \<and> STATE_CLOSED \<noteq> STATE_HALF_CLOSED_HERE \<and> Closed STATE_CLOSED
   \<and> CloseHere STATE_CLOSED = STATE_CLOSED \<and> CloseThere STATE_CLOSED = STATE_CLOSED
   \<and> Closed (run_calls STATE_CLOSED [CallCloseHere, CallCloseThere, CallClose])"
  using stream_state_machine [of STATE_CLOSED "[CallCloseHere, CallCloseThere, CallClose]"]
  by (simp add: Closed_def state_defs)

subsection \<open>The stream limit\<close>

text \<open>
  Claim C7. \<open>Add\<close> returns false and leaves the struct as it is when
  \<open>current \<ge> limit\<close>; otherwise it returns true and \<open>current\<close> grows by exactly one
  (without wrapping); so \<open>current \<le> limit\<close> is kept by \<open>Add\<close>.
\<close>

theorem Add_gated:
  "(current s \<ge> limit s \<longrightarrow> Add s = (s, False))
   \<and> (current s < limit s \<longrightarrow> Add s = (s\<lparr>current := current s + 1\<rparr>, True)
        \<and> unat (current (fst (Add s))) = unat (current s) + 1)
   \<and> (current s \<le> limit s \<longrightarrow> current (fst (Add s)) \<le> limit (fst (Add s)))"
proof -
  have a: "current s < limit s \<Longrightarrow> unat (current s + 1) = unat (current s) + 1"
    by (rule unat_u32_succ)
  have b: "current s < limit s \<Longrightarrow> current s + 1 \<le> limit s"
    by (rule inc_le)
  show ?thesis using a b by (auto simp: Add_def)
qed

theorem Add_gated_witness:
  "current \<lparr>limit = 2, current = 1\<rparr> < limit \<lparr>limit = 2, current = 1\<rparr>
   \<and> Add \<lparr>limit = 2, current = 1\<rparr> = (\<lparr>limit = 2, current = 2\<rparr>, True)
   \<and> limit \<lparr>limit = 2, current = 2\<rparr> \<le> current \<lparr>limit = 2, current = 2\<rparr>
   \<and> Add \<lparr>limit = 2, current = 2\<rparr> = (\<lparr>limit = 2, current = 2\<rparr>, False)"
  using Add_gated [of "\<lparr>limit = 2, current = 1\<rparr>"] Add_gated [of "\<lparr>limit = 2, current = 2\<rparr>"]
  by simp

text \<open>
  Claim C10. \<open>Close\<close> of the stream limit decrements \<open>current\<close> in every state, with
  no lower-bound check, and leaves \<open>limit\<close> as it is: from a non-zero counter the count
  goes down by one, and from \<open>current = 0\<close> the counter wraps to \<open>2^32 - 1\<close>. After the
  wrap \<open>Add\<close> returns false whatever the limit is, for every limit up to and including
  \<open>NO_STREAM_LIMIT\<close>.
\<close>

theorem Close_underflow:
  "Close_limit s = s\<lparr>current := current s - 1\<rparr>
   \<and> current (Close_limit s) = current s - 1
   \<and> limit (Close_limit s) = limit s
   \<and> (current s \<noteq> 0 \<longrightarrow> unat (current (Close_limit s)) = unat (current s) - 1)
   \<and> (current s = 0 \<longrightarrow>
     current (Close_limit s) = 0xFFFFFFFF
     \<and> unat (current (Close_limit s)) = 2 ^ 32 - 1
     \<and> snd (Add (Close_limit s)) = False
     \<and> (\<forall>l. l \<le> NO_STREAM_LIMIT \<longrightarrow>
            Add ((Close_limit s)\<lparr>limit := l\<rparr>) = ((Close_limit s)\<lparr>limit := l\<rparr>, False)))"
proof -
  have dec: "Close_limit s = s\<lparr>current := current s - 1\<rparr>"
    "current (Close_limit s) = current s - 1" "limit (Close_limit s) = limit s"
    by (simp_all add: Close_limit_def)
  have pos: "current s \<noteq> 0 \<longrightarrow> unat (current (Close_limit s)) = unat (current s) - 1"
    by (simp add: Close_limit_def unat_minus_one)
  have wrap: "current s = 0 \<longrightarrow>
     current (Close_limit s) = 0xFFFFFFFF
     \<and> unat (current (Close_limit s)) = 2 ^ 32 - 1
     \<and> snd (Add (Close_limit s)) = False
     \<and> (\<forall>l. l \<le> NO_STREAM_LIMIT \<longrightarrow>
            Add ((Close_limit s)\<lparr>limit := l\<rparr>) = ((Close_limit s)\<lparr>limit := l\<rparr>, False))"
  proof
    assume z: "current s = 0"
    have m: "current (Close_limit s) = 0xFFFFFFFF"
      using z by (simp add: Close_limit_def)
    have u: "unat (current (Close_limit s)) = 2 ^ 32 - 1"
      unfolding m by simp
    have top: "l \<le> current (Close_limit s)" for l
      using z by (simp add: Close_limit_def)
    have deny: "Add ((Close_limit s)\<lparr>limit := l\<rparr>) = ((Close_limit s)\<lparr>limit := l\<rparr>, False)" for l
      using top [of l] by (simp add: Add_def)
    have "snd (Add (Close_limit s)) = False"
      using top [of "limit (Close_limit s)"] by (simp add: Add_def)
    with m u deny show "current (Close_limit s) = 0xFFFFFFFF
       \<and> unat (current (Close_limit s)) = 2 ^ 32 - 1
       \<and> snd (Add (Close_limit s)) = False
       \<and> (\<forall>l. l \<le> NO_STREAM_LIMIT \<longrightarrow>
              Add ((Close_limit s)\<lparr>limit := l\<rparr>) = ((Close_limit s)\<lparr>limit := l\<rparr>, False))"
      by simp
  qed
  from dec pos wrap show ?thesis by blast
qed

theorem Close_underflow_witness:
  "current \<lparr>limit = 1000, current = 0\<rparr> = 0
   \<and> Close_limit \<lparr>limit = 1000, current = 0\<rparr> = \<lparr>limit = 1000, current = 0xFFFFFFFF\<rparr>
   \<and> NO_STREAM_LIMIT \<le> NO_STREAM_LIMIT
   \<and> Add \<lparr>limit = NO_STREAM_LIMIT, current = 0xFFFFFFFF\<rparr>
       = (\<lparr>limit = NO_STREAM_LIMIT, current = 0xFFFFFFFF\<rparr>, False)
   \<and> current \<lparr>limit = 1000, current = 5\<rparr> \<noteq> 0
   \<and> Close_limit \<lparr>limit = 1000, current = 5\<rparr> = \<lparr>limit = 1000, current = 4\<rparr>
   \<and> unat (current (Close_limit \<lparr>limit = 1000, current = 5\<rparr>)) = 4"
proof -
  let ?z = "\<lparr>limit = 1000, current = 0\<rparr>" and ?p = "\<lparr>limit = 1000, current = 5\<rparr>"
  note z = Close_underflow [of ?z] and p = Close_underflow [of ?p]
  have e: "Close_limit ?z = \<lparr>limit = 1000, current = 0xFFFFFFFF\<rparr>"
    using z by (simp add: u32_max)
  have c0: "current ?z = 0" by simp
  from z c0 have deny: "\<forall>l. l \<le> NO_STREAM_LIMIT \<longrightarrow>
      Add ((Close_limit ?z)\<lparr>limit := l\<rparr>) = ((Close_limit ?z)\<lparr>limit := l\<rparr>, False)"
    by blast
  have "Add ((Close_limit ?z)\<lparr>limit := NO_STREAM_LIMIT\<rparr>)
          = ((Close_limit ?z)\<lparr>limit := NO_STREAM_LIMIT\<rparr>, False)"
    by (rule deny [rule_format, OF order_refl])
  then have a: "Add \<lparr>limit = NO_STREAM_LIMIT, current = 0xFFFFFFFF\<rparr>
       = (\<lparr>limit = NO_STREAM_LIMIT, current = 0xFFFFFFFF\<rparr>, False)"
    unfolding e by simp
  have d: "Close_limit ?p = \<lparr>limit = 1000, current = 4\<rparr>"
    "unat (current (Close_limit ?p)) = 4"
    using p by simp_all
  show ?thesis using e a d by simp
qed

subsection \<open>The default regrowth policy\<close>

text \<open>
  Claim C8, as the code has it. When the current window \<open>c\<close> is below half of the initial
  window \<open>W\<close> (integer division), \<open>ReceiveData\<close> returns \<open>W - c\<close> cut to \<open>uint32\<close>, that
  is \<open>(W - c) mod 2^32\<close>; this is \<open>W - c\<close> itself whenever \<open>W - c < 2^32\<close>. Otherwise it
  returns 0.
\<close>

theorem ReceiveData_delta:
  "(sint c < uint W div 2 \<longrightarrow>
      uint (DefaultFlowControl_ReceiveData f sid W c) = (uint W - sint c) mod 2 ^ 32)
   \<and> (sint c < uint W div 2 \<and> uint W - sint c < 2 ^ 32 \<longrightarrow>
      uint (DefaultFlowControl_ReceiveData f sid W c) = uint W - sint c)
   \<and> (\<not> sint c < uint W div 2 \<longrightarrow> DefaultFlowControl_ReceiveData f sid W c = 0)"
proof -
  have cond: "(c <s i64_quo (ucast W) 2) = (sint c < uint W div 2)"
    by (simp add: word_sless_alt i64_quo_half)
  have pos: "sint c < uint W div 2 \<Longrightarrow> 0 \<le> uint W - sint c"
    using uint_nonnegative [of W] by linarith
  have small: "sint c < uint W div 2 \<Longrightarrow> uint W - sint c < 2 ^ 32 \<Longrightarrow>
      (uint W - sint c) mod 2 ^ 32 = uint W - sint c"
    using pos by (simp add: mod_pos_pos_trivial)
  show ?thesis
    using small by (simp add: DefaultFlowControl_ReceiveData_def cond trunc_sub)
qed

theorem ReceiveData_delta_witness:
  "sint (10 :: i64) < uint (100 :: u32) div 2 \<and> uint (100 :: u32) - sint (10 :: i64) < 2 ^ 32
   \<and> uint (DefaultFlowControl_ReceiveData 100 1 100 10) = 90
   \<and> \<not> sint (50 :: i64) < uint (100 :: u32) div 2
   \<and> DefaultFlowControl_ReceiveData 100 1 100 50 = 0"
  using ReceiveData_delta [of 10 100 100 1] ReceiveData_delta [of 50 100 100 1]
  by simp

text \<open>
  The claim as written fails for a window far below zero: with \<open>W = 0\<close> and
  \<open>c = - 2^32\<close> the difference \<open>W - c\<close> is \<open>2^32\<close>, and the value returned is 0.
\<close>

theorem ReceiveData_delta_counterexample:
  "sint (- 0x100000000 :: i64) < uint (0 :: u32) div 2
   \<and> DefaultFlowControl_ReceiveData 0 1 0 (- 0x100000000) = 0
   \<and> uint (0 :: u32) - sint (- 0x100000000 :: i64) = 4294967296
   \<and> uint (DefaultFlowControl_ReceiveData 0 1 0 (- 0x100000000))
       \<noteq> uint (0 :: u32) - sint (- 0x100000000 :: i64)"
  by (simp add: DefaultFlowControl_ReceiveData_def i64_quo_def word_sless_alt)

subsection \<open>The protocol strings\<close>

lemma SupportedVersions_default:
  assumes "set keys = supportedVersions" "distinct keys"
  shows "SupportedVersions keys = [3, 2]"
proof -
  have inj: "inj_on uint (set keys)" by (auto simp: inj_on_def word_uint_eq_iff)
  have d: "distinct (map uint keys)"
    using assms(2) inj by (simp add: distinct_map)
  have "sort (map uint keys) = sorted_list_of_set (set (map uint keys))"
    by (metis d distinct_remdups_id sorted_list_of_set_sort_remdups)
  also have "set (map uint keys) = {2, 3}"
    using assms(1) by (simp add: supportedVersions_def)
  also have "sorted_list_of_set {2, 3 :: int} = [2, 3]"
    by simp
  finally show ?thesis by (simp add: SupportedVersions_def)
qed

text \<open>
  Claim C9, as the code has it. With the default set of supported versions, in whatever
  order the keys of the map are delivered, \<open>NpnStrings\<close> returns \<open>spdy/3\<close>, \<open>spdy/2\<close>
  (most recent first) and then \<open>http/1.1\<close>.
\<close>

theorem NpnStrings_default:
  "set keys = supportedVersions \<and> distinct keys \<longrightarrow>
     NpnStrings keys = [''spdy/3'', ''spdy/2'', ''http/1.1'']"
  by (simp add: NpnStrings_def SupportedVersions_default Sprintf_d_def decimal_nat.simps
      digit_char_def)

theorem NpnStrings_default_witness:
  "set [2, 3] = supportedVersions \<and> distinct [2, 3 :: u16]
   \<and> NpnStrings [2, 3] = [''spdy/3'', ''spdy/2'', ''http/1.1'']"
  using NpnStrings_default [of "[2, 3]"]
  by (simp add: supportedVersions_def)

text \<open>The token \<open>spdy/3.1\<close> of the claim is not among the strings returned.\<close>

theorem NpnStrings_default_counterexample:
  "set [2, 3] = supportedVersions \<and> ''spdy/3.1'' \<notin> set (NpnStrings [2, 3])"
  by (simp add: supportedVersions_def NpnStrings_def SupportedVersions_def Sprintf_d_def
      decimal_nat.simps digit_char_def)


subsection \<open>Growing the send window\<close>

lemma sint_add_delta:
  assumes "sint (w :: i64) + uint (d :: u32) < 2 ^ 63"
  shows "sint (w + ucast d) = sint w + uint d"
proof -
  have lo: "- 9223372036854775808 \<le> sint w" using sint_ge [of w] by simp
  have d0: "0 \<le> uint d" by simp
  have "sint (w + ucast d) = signed_take_bit 63 (sint w + sint (ucast d :: i64))"
    by (simp add: sint_word_ariths)
  also have "\<dots> = signed_take_bit 63 (sint w + uint d)"
    by (simp add: sint_ucast_u32)
  also have "\<dots> = sint w + uint d"
  proof -
    have "- 9223372036854775808 \<le> sint w + uint d" using lo d0 by linarith
    moreover have "sint w + uint d < 9223372036854775808" using assms by simp
    ultimately show ?thesis by (intro signed_take_bit_int_eq_self) simp_all
  qed
  finally show ?thesis .
qed

text \<open>
  Claim C5. \<open>UpdateWindow\<close> returns an error exactly when the \<open>int64\<close> sum of the delta
  and the transfer window is above \<open>MAX_TRANSFER_WINDOW_SIZE\<close>; then the flow control
  is unchanged and nothing is sent. Otherwise the call is \<open>Flush\<close> run on the flow
  control whose transfer window has been grown by the delta. As long as the exact sum is
  below \<open>2^63\<close>, the \<open>int64\<close> sum is the exact sum.
\<close>

theorem UpdateWindow_overflow:
  "(returned_error (UpdateWindow f d)
      \<longleftrightarrow> sint MAX_TRANSFER_WINDOW_SIZE < sint (ucast d + transferWindow f))
   \<and> (sint MAX_TRANSFER_WINDOW_SIZE < sint (ucast d + transferWindow f) \<longrightarrow>
        UpdateWindow f d =
          Inr (Some (Error ''Error: WINDOW_UPDATE delta window size overflows transfer window size.''),
               f, []))
   \<and> (\<not> sint MAX_TRANSFER_WINDOW_SIZE < sint (ucast d + transferWindow f) \<longrightarrow>
        UpdateWindow f d =
          (case Flush (f\<lparr>transferWindow := transferWindow f + ucast d\<rparr>) of
             Inl p \<Rightarrow> Inl p | Inr (f', fr) \<Rightarrow> Inr (None, f', fr)))
   \<and> (sint (transferWindow f) + uint d < 2 ^ 63 \<longrightarrow>
        sint (ucast d + transferWindow f) = uint d + sint (transferWindow f)
        \<and> sint (transferWindow f + ucast d) = sint (transferWindow f) + uint d)"
proof -
  have a: "returned_error (UpdateWindow f d)
      \<longleftrightarrow> sint MAX_TRANSFER_WINDOW_SIZE < sint (ucast d + transferWindow f)"
    by (auto simp: UpdateWindow_def word_sless_alt split: sum.splits prod.splits)
  have b: "sint MAX_TRANSFER_WINDOW_SIZE < sint (ucast d + transferWindow f) \<longrightarrow>
        UpdateWindow f d =
          Inr (Some (Error ''Error: WINDOW_UPDATE delta window size overflows transfer window size.''),
               f, [])"
    by (simp add: UpdateWindow_def word_sless_alt)
  have c: "\<not> sint MAX_TRANSFER_WINDOW_SIZE < sint (ucast d + transferWindow f) \<longrightarrow>
        UpdateWindow f d =
          (case Flush (f\<lparr>transferWindow := transferWindow f + ucast d\<rparr>) of
             Inl p \<Rightarrow> Inl p | Inr (f', fr) \<Rightarrow> Inr (None, f', fr))"
    by (simp add: UpdateWindow_def word_sless_alt)
  have e: "sint (transferWindow f) + uint d < 2 ^ 63 \<longrightarrow>
        sint (ucast d + transferWindow f) = uint d + sint (transferWindow f)
        \<and> sint (transferWindow f + ucast d) = sint (transferWindow f) + uint d"
    using sint_add_delta [of "transferWindow f" d] by (simp add: add.commute)
  from a b c e show ?thesis by blast
qed

theorem UpdateWindow_overflow_witness:
  "sint MAX_TRANSFER_WINDOW_SIZE < sint (ucast (0x7FFFFFFF :: u32) + transferWindow flow_fresh)
   \<and> returned_error (UpdateWindow flow_fresh 0x7FFFFFFF)
   \<and> UpdateWindow flow_fresh 0x7FFFFFFF =
        Inr (Some (Error ''Error: WINDOW_UPDATE delta window size overflows transfer window size.''),
             flow_fresh, [])
   \<and> \<not> sint MAX_TRANSFER_WINDOW_SIZE < sint (ucast (5 :: u32) + transferWindow flow_fresh)
   \<and> \<not> returned_error (UpdateWindow flow_fresh 5)
   \<and> UpdateWindow flow_fresh 5 = Inr (None, flow_fresh\<lparr>transferWindow := 15\<rparr>, [])
   \<and> sint (transferWindow flow_fresh) + uint (5 :: u32) < 2 ^ 63
   \<and> sint (transferWindow flow_fresh + ucast (5 :: u32)) = 15"
  using UpdateWindow_overflow [of flow_fresh "0x7FFFFFFF"] UpdateWindow_overflow [of flow_fresh 5]
  by (simp add: flow_fresh_def MAX_TRANSFER_WINDOW_SIZE_def Flush_def CheckInitialWindow_def)


subsection \<open>Writing\<close>

lemma u32_len_gt:
  assumes "length (data :: u8 list) < 2 ^ 32"
  shows "((word_of_nat (length data) :: u32) > w) = (unat w < length data)"
proof -
  have "unat (word_of_nat (length data) :: u32) = length data"
    using assms by (simp add: unat_of_nat)
  then show ?thesis by (simp add: word_less_nat_alt)
qed

lemma uint_ucast_i64_le:
  assumes "0 \<le> sint (w :: i64)"
  shows "uint (ucast w :: u32) = sint w mod 2 ^ 32" "uint (ucast w :: u32) \<le> sint w"
proof -
  have "uint (ucast w :: u32) = take_bit 32 (uint w)"
    by (simp add: unsigned_ucast_eq)
  also have "\<dots> = take_bit 32 (sint w)"
    by (simp add: sint_uint take_bit_signed_take_bit)
  finally have e: "uint (ucast w :: u32) = take_bit 32 (sint w)" .
  then show "uint (ucast w :: u32) = sint w mod 2 ^ 32" by (simp add: take_bit_eq_mod)
  show "uint (ucast w :: u32) \<le> sint w"
    unfolding e using assms by (simp add: take_bit_int_less_eq_self_iff)
qed

lemma Write_window_le:
  "0 \<le> uint (Write_window f)
   \<and> uint (Write_window f) \<le> max 0 (sint (transferWindow f))
   \<and> uint (Write_window f) = max 0 (sint (transferWindow f)) mod 2 ^ 32"
proof (cases "transferWindow f <s 0")
  case True
  then show ?thesis by (simp add: Write_window_def word_sless_alt max_def)
next
  case False
  then have n: "0 \<le> sint (transferWindow f)" by (simp add: word_sless_alt)
  show ?thesis
    using False n uint_ucast_i64_le [OF n] by (simp add: Write_window_def max_def)
qed

lemma Write_window_debit:
  "sint (transferWindow f - ucast (Write_window f))
     = sint (transferWindow f) - uint (Write_window f)"
proof -
  let ?t = "sint (transferWindow f)" and ?w = "uint (Write_window f)"
  have lo: "- 9223372036854775808 \<le> ?t" using sint_ge [of "transferWindow f"] by simp
  have hi: "?t < 9223372036854775808" using sint_lt [of "transferWindow f"] by simp
  have w: "0 \<le> ?w" "?w \<le> max 0 ?t" using Write_window_le [of f] by simp_all
  have "sint (transferWindow f - ucast (Write_window f))
          = signed_take_bit 63 (?t - sint (ucast (Write_window f) :: i64))"
    by (simp add: sint_word_ariths)
  also have "\<dots> = signed_take_bit 63 (?t - ?w)"
    by (simp add: sint_ucast_u32)
  also have "\<dots> = ?t - ?w"
  proof -
    have "- 9223372036854775808 \<le> ?t - ?w" using lo w by (simp add: max_def split: if_splits)
    moreover have "?t - ?w < 9223372036854775808" using hi w by linarith
    ultimately show ?thesis by (intro signed_take_bit_int_eq_self) simp_all
  qed
  finally show ?thesis .
qed

lemma CheckInitialWindow_buffer: "buffer (CheckInitialWindow f) = buffer f"
  by (simp add: CheckInitialWindow_def Let_def split: option.splits sum.splits)

lemma Flush_buffer:
  "Flush f = Inr (f', fr) \<Longrightarrow> buffer f \<noteq> None \<Longrightarrow> buffer f' \<noteq> None"
  by (auto simp: Flush_def Let_def CheckInitialWindow_buffer split: if_splits prod.splits)

lemma Write_prepare_buffer:
  "Write_prepare f0 = Inr (f, fr) \<Longrightarrow> buffer f0 \<noteq> None \<Longrightarrow> buffer f \<noteq> None"
  by (auto simp: Write_prepare_def Let_def CheckInitialWindow_buffer split: if_splits
      dest: Flush_buffer)

text \<open>
  Claim C4, as the code has it. Take a non-empty slice of \<open>N < 2^32\<close> bytes and a flow
  control whose buffer and stream are not nil, and let the transfer window processing at
  the start of \<open>Write\<close> (\<open>CheckInitialWindow\<close>, then \<open>Flush\<close> of the pending data when
  constrained) end without a panic in the flow control \<open>f\<close>, having sent the frames
  \<open>flushed\<close>. Let \<open>W\<close> be the window of \<open>f\<close> as \<open>Write\<close> computes it:
  \<open>max(transferWindow, 0)\<close> cut to \<open>uint32\<close>. Then \<open>Write\<close> returns \<open>(N, nil)\<close>. If
  \<open>W \<ge> N\<close> the whole slice is sent as one DATA frame and neither the buffer nor
  \<open>constrained\<close> changes. Otherwise exactly the first \<open>W\<close> bytes are sent (no frame at all
  when \<open>W = 0\<close>), the other \<open>N - W\<close> bytes are appended to the buffer as one chunk,
  \<open>constrained\<close> is set and the transfer window goes down by \<open>W\<close>.
\<close>

theorem Write_accepts:
  assumes "data \<noteq> []" "buffer f0 \<noteq> None" "stream f0 \<noteq> None" "length data < 2 ^ 32"
      and "Write_prepare f0 = Inr (f, flushed)"
  shows "int (unat (Write_window f)) = max 0 (sint (transferWindow f)) mod 2 ^ 32
     \<and> (\<exists>f' frames. Write f0 data = Inr ((length data, None), f', flushed @ frames)
     \<and> (length data \<le> unat (Write_window f) \<longrightarrow>
           frames = [dataFrameV3 (streamID f) data]
           \<and> buffer f' = buffer f \<and> constrained f' = constrained f)
     \<and> (unat (Write_window f) < length data \<longrightarrow>
           frames = (if Write_window f = 0 then []
                     else [dataFrameV3 (streamID f) (take (unat (Write_window f)) data)])
           \<and> buffer f' = Some (the (buffer f) @ [drop (unat (Write_window f)) data])
           \<and> constrained f'
           \<and> sint (transferWindow f') = sint (transferWindow f) - int (unat (Write_window f))))"
proof
  show "int (unat (Write_window f)) = max 0 (sint (transferWindow f)) mod 2 ^ 32"
    using Write_window_le [of f] by simp
  have D: "sint (transferWindow f - ucast (Write_window f))
             = sint (transferWindow f) - int (unat (Write_window f))"
    using Write_window_debit [of f] by simp
  show "\<exists>f' frames. Write f0 data = Inr ((length data, None), f', flushed @ frames)
     \<and> (length data \<le> unat (Write_window f) \<longrightarrow>
           frames = [dataFrameV3 (streamID f) data]
           \<and> buffer f' = buffer f \<and> constrained f' = constrained f)
     \<and> (unat (Write_window f) < length data \<longrightarrow>
           frames = (if Write_window f = 0 then []
                     else [dataFrameV3 (streamID f) (take (unat (Write_window f)) data)])
           \<and> buffer f' = Some (the (buffer f) @ [drop (unat (Write_window f)) data])
           \<and> constrained f'
           \<and> sint (transferWindow f') = sint (transferWindow f) - int (unat (Write_window f)))"
  proof (cases "unat (Write_window f) < length data")
    case True
    obtain b where b: "buffer f = Some b"
      using Write_prepare_buffer [OF assms(5) assms(2)] by auto
    have t: "(take (unat (Write_window f)) data = []) = (Write_window f = 0)"
      using assms(1) by (simp add: unat_eq_0)
    show ?thesis
      using True assms b t D by (simp add: Write_def Let_def u32_len_gt)
  next
    case False
    then show ?thesis
      using assms by (simp add: Write_def Let_def u32_len_gt)
  qed
qed

lemma Write_prepare_fresh: "Write_prepare flow_fresh = Inr (flow_fresh, [])"
  by (simp add: Write_prepare_def CheckInitialWindow_def flow_fresh_def)

lemma Write_prepare_narrow: "Write_prepare flow_narrow = Inr (flow_narrow, [])"
  by (simp add: Write_prepare_def CheckInitialWindow_def flow_narrow_def flow_fresh_def)

theorem Write_accepts_witness:
  "[1, 2, 3] \<noteq> ([] :: u8 list) \<and> buffer flow_narrow \<noteq> None \<and> stream flow_narrow \<noteq> None
   \<and> length [1, 2, 3 :: u8] < 2 ^ 32
   \<and> Write_prepare flow_narrow = Inr (flow_narrow, [])
   \<and> unat (Write_window flow_narrow) = 2
   \<and> fst (projr (Write flow_narrow [1, 2, 3])) = (3, None)
   \<and> snd (snd (projr (Write flow_narrow [1, 2, 3]))) = [dataFrameV3 1 [1, 2]]
   \<and> buffer (fst (snd (projr (Write flow_narrow [1, 2, 3])))) = Some [[3]]
   \<and> constrained (fst (snd (projr (Write flow_narrow [1, 2, 3]))))
   \<and> sint (transferWindow (fst (snd (projr (Write flow_narrow [1, 2, 3]))))) = 0"
proof -
  have w: "Write_window flow_narrow = 2"
    by (simp add: Write_window_def flow_narrow_def flow_fresh_def word_sless_alt)
  have h: "[1, 2, 3] \<noteq> ([] :: u8 list)" "buffer flow_narrow \<noteq> None"
    "stream flow_narrow \<noteq> None" "length [1, 2, 3 :: u8] < 2 ^ 32"
    by (simp_all add: flow_narrow_def flow_fresh_def)
  from Write_accepts [OF h Write_prepare_narrow] w
  obtain f' frames where
    r: "Write flow_narrow [1, 2, 3] = Inr ((3, None), f', frames)"
    and fr: "frames = [dataFrameV3 (streamID flow_narrow) [1, 2]]"
    and bf: "buffer f' = Some (the (buffer flow_narrow) @ [[3]])"
    and cf: "constrained f'"
    and tw: "sint (transferWindow f') = sint (transferWindow flow_narrow) - 2"
    by auto
  have v: "streamID flow_narrow = 1" "buffer flow_narrow = Some []"
    "sint (transferWindow flow_narrow) = 2"
    by (simp_all add: flow_narrow_def flow_fresh_def)
  show ?thesis
    using h Write_prepare_narrow w r fr bf cf tw v by simp
qed

text \<open>
  The claim as written fails in four ways. (1) When the window covers the slice, the slice
  is sent but the transfer window stays as it was. (2) On a constrained stream \<open>Write\<close>
  first flushes the pending data, so the window that counts is the one left after the
  flush: here the window is 5 at the call, 3 pending bytes are flushed and only 2 of the
  4 bytes written are sent. (3) On a constrained stream with a negative window the flush
  panics. (4) The length is compared as a \<open>uint32\<close>: a slice of \<open>2^32\<close> bytes is sent
  whole through a window of 10.
\<close>

theorem Write_counterexample:
  "Write flow_fresh [1, 2, 3] = Inr ((3, None), flow_fresh, [dataFrameV3 1 [1, 2, 3]])
   \<and> transferWindow flow_fresh = 10
   \<and> Write (flow_fresh\<lparr>transferWindow := 5, buffer := Some [[9, 9, 9]], constrained := True\<rparr>)
        [1, 2, 3, 4]
      = Inr ((4, None),
             flow_fresh\<lparr>transferWindow := 0, sent := 2, buffer := Some [[3, 4]],
                        constrained := True\<rparr>,
             [dataFrameV3 1 [9, 9, 9], dataFrameV3 1 [1, 2]])
   \<and> Write (flow_fresh\<lparr>transferWindow := - 1, constrained := True\<rparr>) [1]
      = Inl (Panic ''makeslice: cap out of range'')
   \<and> Write flow_fresh (replicate 4294967296 0)
      = Inr ((4294967296, None), flow_fresh, [dataFrameV3 1 (replicate 4294967296 0)])"
proof -
  have n: "(word_of_nat 4294967296 :: u32) = 0" by simp
  have w: "Write_window flow_fresh = 10"
    by (simp add: Write_window_def flow_fresh_def word_sless_alt)
  have c1: "Write flow_fresh [1, 2, 3] = Inr ((3, None), flow_fresh, [dataFrameV3 1 [1, 2, 3]])"
    by (simp add: Write_def Write_prepare_fresh w) (simp add: flow_fresh_def)
  have c2: "Write (flow_fresh\<lparr>transferWindow := 5, buffer := Some [[9, 9, 9]], constrained := True\<rparr>)
        [1, 2, 3, 4]
      = Inr ((4, None),
             flow_fresh\<lparr>transferWindow := 0, sent := 2, buffer := Some [[3, 4]],
                        constrained := True\<rparr>,
             [dataFrameV3 1 [9, 9, 9], dataFrameV3 1 [1, 2]])"
    by (simp add: Write_def Write_prepare_def CheckInitialWindow_def Flush_def Flush_loop.simps
        Write_window_def word_sless_alt word_sle_eq flow_fresh_def)
  have c3: "Write (flow_fresh\<lparr>transferWindow := - 1, constrained := True\<rparr>) [1]
      = Inl (Panic ''makeslice: cap out of range'')"
    by (simp add: Write_def Write_prepare_def CheckInitialWindow_def Flush_def
        word_sless_alt flow_fresh_def)
  have c4: "Write flow_fresh (replicate 4294967296 0)
      = Inr ((4294967296, None), flow_fresh, [dataFrameV3 1 (replicate 4294967296 0)])"
    by (simp add: Write_def Write_prepare_fresh w n) (simp add: flow_fresh_def)
  have t: "transferWindow flow_fresh = 10" by (simp add: flow_fresh_def)
  from c1 c2 c3 c4 t show ?thesis by blast
qed


subsection \<open>Flushing the buffer\<close>

lemma Flush_loop_three: "Flush_loop 0 [[1], [2], [3]] [] 10 = ([[3]], [1, 3], 8)"
  by (simp add: Flush_loop.simps word_sle_eq)

lemma Flush_loop_two: "Flush_loop 0 [[1], [2]] [] 10 = ([[2]], [1], 9)"
  by (simp add: Flush_loop.simps word_sle_eq)

text \<open>
  Claim C1 asks that \<open>Flush\<close> on a constrained stream with a positive window sends the
  longest prefix of the buffered bytes that fits the window, keeps the rest in order, and
  clears \<open>constrained\<close> only with an empty buffer. The loop of \<open>Flush\<close> drops the head
  of the buffer and increments its index in the same round, so it skips every second
  chunk. With the chunks \<open>[1]\<close>, \<open>[2]\<close>, \<open>[3]\<close> buffered and a window of 10, \<open>Flush\<close>
  (alone, and inside \<open>UpdateWindow\<close>) sends the bytes \<open>1, 3\<close>, leaves the chunk \<open>[3]\<close>
  in the buffer and clears \<open>constrained\<close>: byte 2 is lost and byte 3 is kept although it
  was sent. With the chunks \<open>[1]\<close>, \<open>[2]\<close> it sends only byte 1 and clears
  \<open>constrained\<close> with \<open>[2]\<close> still buffered.
\<close>

theorem Flush_skips_chunks:
  "constrained flow_pending \<and> sint (transferWindow flow_pending) = 10
   \<and> buffer flow_pending = Some [[1], [2], [3]]
   \<and> Flush flow_pending =
       Inr (flow_pending\<lparr>buffer := Some [[3]], transferWindow := 8, constrained := False\<rparr>,
            [dataFrameV3 1 [1, 3]])
   \<and> UpdateWindow (flow_pending\<lparr>transferWindow := 0\<rparr>) 10 =
       Inr (None, flow_pending\<lparr>buffer := Some [[3]], transferWindow := 8, constrained := False\<rparr>,
            [dataFrameV3 1 [1, 3]])
   \<and> Flush (flow_pending\<lparr>buffer := Some [[1], [2]]\<rparr>) =
       Inr (flow_pending\<lparr>buffer := Some [[2]], transferWindow := 9, constrained := False\<rparr>,
            [dataFrameV3 1 [1]])"
  by (simp add: flow_pending_def flow_fresh_def Flush_def UpdateWindow_def CheckInitialWindow_def
      Flush_loop_three Flush_loop_two MAX_TRANSFER_WINDOW_SIZE_def word_sless_alt)

theorem Flush_skips_chunks_witness:
  "snd (projr (Flush flow_pending)) = [dataFrameV3 1 [1, 3]]
   \<and> buffer (fst (projr (Flush flow_pending))) = Some [[3]]
   \<and> constrained (fst (projr (Flush flow_pending))) = False
   \<and> sint (transferWindow (fst (projr (Flush flow_pending)))) = 8"
  using Flush_skips_chunks by simp

subsection \<open>Receiving\<close>

text \<open>
  Claim C2 asks that \<open>Receive\<close> on an already negative window sends RST_STREAM with
  FLOW_CONTROL_ERROR and does nothing else. \<open>Receive\<close> does not return after the
  RST_STREAM: with a window of \<open>-1\<close> and one byte of data it sends the RST_STREAM, takes
  the byte off the window, asks the policy, sends a WINDOW_UPDATE of 65537 and leaves the
  window at 65535.
\<close>

theorem Receive_negative_window:
  "transferWindowThere (flow_fresh\<lparr>transferWindowThere := - 1\<rparr>) <s 0
   \<and> Receive (flow_fresh\<lparr>transferWindowThere := - 1\<rparr>) [0] =
       Inr (flow_fresh\<lparr>transferWindowThere := 65535\<rparr>,
            [rstStreamFrameV3 1 RST_STREAM_FLOW_CONTROL_ERROR, windowUpdateFrameV3 1 65537])"
  by (simp add: Receive_def flow_fresh_def DefaultFlowControl_def DefaultFlowControl_ReceiveData_def
      i64_quo_def word_sless_alt)

subsection \<open>Adding flow control to a stream\<close>

lemma AddFlowControl_serverStreamV3_window:
  assumes "flow s = None" "Conn_InitialWindowSize (conn s) = Inr w"
  shows "\<exists>fl. flow (AddFlowControl_serverStreamV3 s f) = Some fl
          \<and> initialWindowThere fl = InitialWindowSize f
          \<and> transferWindowThere fl = ucast (InitialWindowSize f)"
  using assms by (simp add: AddFlowControl_serverStreamV3_def Let_def)

lemma AddFlowControl_clientStreamV3_window:
  assumes "flow r = None" "Conn_InitialWindowSize (conn r) = Inr w"
  shows "\<exists>fl. flow (AddFlowControl_clientStreamV3 r f) = Some fl
          \<and> initialWindowThere fl = InitialWindowSize f
          \<and> transferWindowThere fl = ucast (InitialWindowSize f)"
  using assms by (simp add: AddFlowControl_clientStreamV3_def Let_def)

lemma AddFlowControl_pushStreamV3_window:
  assumes "flow p = None" "Conn_InitialWindowSize (conn p) = Inr w"
  shows "\<exists>fl. flow (AddFlowControl_pushStreamV3 p f) = Some fl
          \<and> initialWindowThere fl = InitialWindowSize f
          \<and> transferWindowThere fl = 0"
  using assms by (simp add: AddFlowControl_pushStreamV3_def Let_def new_flowControl_def)

text \<open>
  Claim C3 asks that each of the three \<open>AddFlowControl\<close> methods leaves
  \<open>transferWindowThere\<close> at the initial window size of the \<open>FlowControl\<close> given. The
  methods of \<open>serverStreamV3\<close> and \<open>clientStreamV3\<close> do. The method of \<open>pushStreamV3\<close>
  assigns \<open>transferWindowThere\<close> to itself, so it stays at the zero of the new struct:
  with the default policy of 65535 bytes the push stream ends with
  \<open>initialWindowThere = 65535\<close> and \<open>transferWindowThere = 0\<close>.
\<close>

theorem AddFlowControl_push_window:
  "InitialWindowSize (DefaultFlowControl 65535) = 65535
   \<and> map_option transferWindowThere
        (flow (AddFlowControl_pushStreamV3 stream_fresh (DefaultFlowControl 65535))) = Some 0
   \<and> map_option initialWindowThere
        (flow (AddFlowControl_pushStreamV3 stream_fresh (DefaultFlowControl 65535))) = Some 65535
   \<and> map_option transferWindowThere
        (flow (AddFlowControl_serverStreamV3 stream_fresh (DefaultFlowControl 65535))) = Some 65535
   \<and> map_option transferWindowThere
        (flow (AddFlowControl_clientStreamV3 stream_fresh (DefaultFlowControl 65535))) = Some 65535"
  by (simp add: AddFlowControl_pushStreamV3_def AddFlowControl_serverStreamV3_def
      AddFlowControl_clientStreamV3_def stream_fresh_def new_flowControl_def
      DefaultFlowControl_def DefaultFlowControl_InitialWindowSize_def)


end
